theory Spec2Isabelle
  imports Complex_Main "HOL-Library.AList"
begin

section \<open>Values read from the configuration file\<close>

text \<open>
  \<^verbatim>\<open>json.load\<close> produces \<^verbatim>\<open>None\<close>, a \<^verbatim>\<open>bool\<close>, an \<^verbatim>\<open>int\<close>, a \<^verbatim>\<open>float\<close>, a \<^verbatim>\<open>str\<close>,
  a \<^verbatim>\<open>list\<close> or a \<^verbatim>\<open>dict\<close> with string keys. A float is kept by its numerical value
  (\<^verbatim>\<open>0.0\<close> and \<^verbatim>\<open>-0.0\<close> are both \<open>Finite 0\<close>); \<^verbatim>\<open>json.load\<close> also reads
  \<^verbatim>\<open>Infinity\<close>, \<^verbatim>\<open>-Infinity\<close> and \<^verbatim>\<open>NaN\<close>. A dict is the list of its items in insertion
  order; the keys of a dict that \<^verbatim>\<open>json.load\<close> built are distinct.
\<close>

datatype pyfloat = Finite rat | Infinite bool | NaN

datatype json =
    JNull
  | JBool bool
  | JInt int
  | JFloat pyfloat
  | JStr string
  | JArr "json list"
  | JObj "(string \<times> json) list"

type_synonym dict = "(string \<times> json) list"

text \<open>The process environment, as \<^verbatim>\<open>os.getenv\<close> reads it: \<open>None\<close> when the variable is not set.\<close>

type_synonym environ = "string \<rightharpoonup> string"

text \<open>Python's truth value of a parsed document, which \<^verbatim>\<open>not config\<close> negates.\<close>

fun truthy :: "json \<Rightarrow> bool" where
  "truthy JNull = False"
| "truthy (JBool b) = b"
| "truthy (JInt i) = (i \<noteq> 0)"
| "truthy (JFloat f) = (f \<noteq> Finite 0)"
| "truthy (JStr s) = (s \<noteq> [])"
| "truthy (JArr xs) = (xs \<noteq> [])"
| "truthy (JObj items) = (items \<noteq> [])"

text \<open>
  \<^verbatim>\<open>str.upper\<close> and \<^verbatim>\<open>str.lower\<close> on the ASCII letters; every other character is left
  as it is.
\<close>

definition upper_char :: "char \<Rightarrow> char" where
  "upper_char c =
     (let n = (of_char c :: nat) in if 97 \<le> n \<and> n \<le> 122 then char_of (n - 32) else c)"

definition lower_char :: "char \<Rightarrow> char" where
  "lower_char c =
     (let n = (of_char c :: nat) in if 65 \<le> n \<and> n \<le> 90 then char_of (n + 32) else c)"

definition upper :: "string \<Rightarrow> string" where
  "upper s = map upper_char s"

definition lower :: "string \<Rightarrow> string" where
  "lower s = map lower_char s"

section \<open>Errors\<close>

text \<open>
  One entry of a validation failure: the kind of problem found at a field. The exceptions
  that can leave \<^verbatim>\<open>load_config\<close> are the constructors of \<open>error\<close>; \<open>ValidationError\<close>
  carries one entry per offending field, \<open>ValueError\<close> its message.
\<close>

datatype problem = missing | string_type | bool_type | bool_parsing

datatype error =
    FileNotFoundError
  | JSONDecodeError
  | UnicodeDecodeError
  | ValueError string
  | ValidationError "(string \<times> problem) list"
  | AttributeError
  | TypeError

section \<open>The schema\<close>

record ConfigSchema =
  app_name :: string
  environment :: string
  debug :: bool
  db_url :: string

text \<open>
  The class \<^verbatim>\<open>ConfigSchema\<close> declares the four fields and their types; what is done
  with a value of a field is the work of the validation library its base class comes from
  (\<^verbatim>\<open>pydantic.BaseModel\<close>), which \<^verbatim>\<open>config_loader.py\<close> imports and the repository does
  not hold.
\<close>

text \<open>
  Modelled from the spec: the schema layer's check of the value of a \<^verbatim>\<open>str\<close> field (the
  validation library is not in the repository). A string is taken as it is, every other
  value is refused.
\<close>

definition validate_str :: "json \<Rightarrow> problem + string" where
  "validate_str v = (case v of JStr s \<Rightarrow> Inr s | _ \<Rightarrow> Inl string_type)"

text \<open>
  Modelled from the spec: the schema layer's check of the value of a \<^verbatim>\<open>bool\<close> field (the
  validation library is not in the repository). A boolean is taken as it is; the integers
  and floats 0 and 1 and the usual string encodings, compared without regard to case, are
  coerced; everything else is refused.
\<close>

definition bool_true :: "string list" where
  "bool_true = [''1'', ''on'', ''t'', ''true'', ''y'', ''yes'']"

definition bool_false :: "string list" where
  "bool_false = [''0'', ''off'', ''f'', ''false'', ''n'', ''no'']"

definition validate_bool :: "json \<Rightarrow> problem + bool" where
  "validate_bool v =
     (case v of
        JBool b \<Rightarrow> Inr b
      | JStr s \<Rightarrow>
          (if lower s \<in> set bool_true then Inr True
           else if lower s \<in> set bool_false then Inr False
           else Inl bool_parsing)
      | JInt i \<Rightarrow>
          (if i = 1 then Inr True else if i = 0 then Inr False else Inl bool_parsing)
      | JFloat f \<Rightarrow>
          (if f = Finite 1 then Inr True else if f = Finite 0 then Inr False
           else Inl bool_parsing)
      | _ \<Rightarrow> Inl bool_type)"

text \<open>
  Modelled from the spec: how the schema layer reads one required field from the keyword
  arguments (the validation library is not in the repository): the field is missing, or
  its value is checked by the field's type. A problem is reported under the field's name.
\<close>

definition get_field :: "dict \<Rightarrow> string \<Rightarrow> (json \<Rightarrow> problem + 'a) \<Rightarrow> problem + 'a" where
  "get_field config name validate =
     (case map_of config name of None \<Rightarrow> Inl missing | Some v \<Rightarrow> validate v)"

definition problems :: "string \<Rightarrow> problem + 'a \<Rightarrow> (string \<times> problem) list" where
  "problems name r = (case r of Inl p \<Rightarrow> [(name, p)] | Inr _ \<Rightarrow> [])"

text \<open>
  Modelled from the spec: the constructor call \<^verbatim>\<open>ConfigSchema(**config)\<close>, which the class
  inherits from the validation library (not in the repository). The four fields that the
  class declares are read from the keyword arguments in the order of their declaration;
  keys that are not fields are not looked at. All problems are collected before the call
  fails.
\<close>

definition ConfigSchema_init :: "dict \<Rightarrow> error + ConfigSchema" where
  "ConfigSchema_init config =
     (let a = get_field config ''app_name'' validate_str;
          e = get_field config ''environment'' validate_str;
          d = get_field config ''debug'' validate_bool;
          u = get_field config ''db_url'' validate_str
      in case (a, e, d, u) of
           (Inr a', Inr e', Inr d', Inr u') \<Rightarrow>
             Inr \<lparr>app_name = a', environment = e', debug = d', db_url = u'\<rparr>
         | _ \<Rightarrow>
             Inl (ValidationError
               (problems ''app_name'' a @ problems ''environment'' e @
                problems ''debug'' d @ problems ''db_url'' u)))"

section \<open>Reading the file\<close>

text \<open>
  What \<^verbatim>\<open>open\<close> followed by \<^verbatim>\<open>json.load\<close> does at a path: there is no such file, its
  bytes are not text, its text is not JSON, or it parses to a value.
\<close>

datatype file_read = Absent | Undecodable | Malformed | Parsed json

type_synonym filesystem = "string \<Rightarrow> file_read"

text \<open>
  \<^verbatim>\<open>_load_config_from_file\<close>: the three handlers log and raise the exception again; a
  document that is false in Python's sense gives \<^verbatim>\<open>None\<close>.
\<close>

definition load_config_from_file :: "filesystem \<Rightarrow> string \<Rightarrow> error + json option" where
  "load_config_from_file fs file_path =
     (case fs file_path of
        Absent \<Rightarrow> Inl FileNotFoundError
      | Malformed \<Rightarrow> Inl JSONDecodeError
      | Undecodable \<Rightarrow> Inl UnicodeDecodeError
      | Parsed config \<Rightarrow> if \<not> truthy config then Inr None else Inr (Some config))"

section \<open>Environment overrides\<close>

text \<open>
  The loop of \<^verbatim>\<open>_apply_environment_overrides\<close> over \<^verbatim>\<open>config.keys()\<close>: an assignment
  to a key of the dict keeps the key's place.
\<close>

fun override_loop :: "environ \<Rightarrow> string list \<Rightarrow> dict \<Rightarrow> dict" where
  "override_loop env [] config = config"
| "override_loop env (key # keys) config =
     (case env (upper key) of
        Some env_value \<Rightarrow> override_loop env keys (AList.update key (JStr env_value) config)
      | None \<Rightarrow> override_loop env keys config)"

definition apply_environment_overrides :: "environ \<Rightarrow> dict \<Rightarrow> dict" where
  "apply_environment_overrides env config = override_loop env (map fst config) config"

section \<open>The entry point\<close>

text \<open>
  \<^verbatim>\<open>load_config\<close>. A document that is true in Python's sense but not a dict has no
  \<^verbatim>\<open>keys\<close> method (\<open>AttributeError\<close>) and cannot be unpacked into keyword arguments
  (\<open>TypeError\<close>). A validation failure is raised again as a \<open>ValueError\<close> with a fixed
  message.
\<close>

definition load_config :: "filesystem \<Rightarrow> environ \<Rightarrow> string \<Rightarrow> bool \<Rightarrow> error + ConfigSchema" where
  "load_config fs env file_path env_override =
     (case load_config_from_file fs file_path of
        Inl e \<Rightarrow> Inl e
      | Inr None \<Rightarrow> Inl (ValueError ''Config is None. Please check the file content.'')
      | Inr (Some (JObj config)) \<Rightarrow>
          (let config' = (if env_override then apply_environment_overrides env config
                          else config)
           in case ConfigSchema_init config' of
                Inl (ValidationError errs) \<Rightarrow> Inl (ValueError ''Invalid configuration data'')
              | Inl e \<Rightarrow> Inl e
              | Inr validated \<Rightarrow> Inr validated)
      | Inr (Some _) \<Rightarrow> (if env_override then Inl AttributeError else Inl TypeError))"

section \<open>Properties of the override step\<close>

text \<open>
  What the loop leaves at a key, for any list of keys it is run over: a key of that list
  whose variable is set holds the variable's text, every other key holds what it held.
\<close>

lemma override_loop_lookup:
  "map_of (override_loop env keys config) k =
     (if k \<in> set keys
      then (case env (upper k) of Some s \<Rightarrow> Some (JStr s) | None \<Rightarrow> map_of config k)
      else map_of config k)"
proof (induction keys arbitrary: config)
  case Nil
  show ?case by simp
next
  case (Cons key keys)
  show ?case
  proof (cases "env (upper key)")
    case None
    with Cons.IH [of config] show ?thesis by (auto split: option.splits)
  next
    case (Some s)
    with Cons.IH [of "AList.update key (JStr s) config"] show ?thesis
      by (auto simp: update_conv' split: option.splits)
  qed
qed

lemma override_loop_keys:
  "set keys \<subseteq> set (map fst config) \<Longrightarrow> map fst (override_loop env keys config) = map fst config"
proof (induction keys arbitrary: config)
  case Nil
  show ?case by simp
next
  case (Cons key keys)
  show ?case
  proof (cases "env (upper key)")
    case None
    with Cons show ?thesis by simp
  next
    case (Some s)
    from Cons.prems have k: "map fst (AList.update key (JStr s) config) = map fst config"
      by (simp add: update_keys)
    with Cons.prems Cons.IH [of "AList.update key (JStr s) config"] Some show ?thesis
      by simp
  qed
qed

text \<open>A dict that already holds the text of every set variable is left as it is.\<close>

lemma override_loop_fixed:
  "(\<And>k s. k \<in> set keys \<Longrightarrow> env (upper k) = Some s \<Longrightarrow> map_of config k = Some (JStr s))
     \<Longrightarrow> override_loop env keys config = config"
proof (induction keys)
  case Nil
  show ?case by simp
next
  case (Cons key keys)
  show ?case
  proof (cases "env (upper key)")
    case None
    with Cons show ?thesis by simp
  next
    case (Some s)
    with Cons.prems have "map_of config key = Some (JStr s)" by simp
    then have "AList.update key (JStr s) config = config" by (rule update_triv)
    with Some Cons show ?thesis by simp
  qed
qed

lemma apply_lookup:
  "map_of (apply_environment_overrides env config) k =
     (case env (upper k) of
        Some s \<Rightarrow> (if k \<in> fst ` set config then Some (JStr s) else None)
      | None \<Rightarrow> map_of config k)"
  by (auto simp: apply_environment_overrides_def override_loop_lookup map_of_eq_None_iff
      split: option.splits)

lemma apply_keys:
  "map fst (apply_environment_overrides env config) = map fst config"
  by (simp add: apply_environment_overrides_def override_loop_keys)

lemma upper_keys:
  "upper ''app_name'' = ''APP_NAME''" "upper ''environment'' = ''ENVIRONMENT''"
  "upper ''debug'' = ''DEBUG''" "upper ''db_url'' = ''DB_URL''"
  by code_simp+





text \<open>
  C9. The override step is idempotent: under one environment, running it on its own
  result changes nothing.
\<close>

theorem override_idempotent:
  "apply_environment_overrides env (apply_environment_overrides env config) =
   apply_environment_overrides env config"
proof -
  let ?c = "apply_environment_overrides env config"
  have "override_loop env (map fst ?c) ?c = ?c"
  proof (rule override_loop_fixed)
    fix k s
    assume "k \<in> set (map fst ?c)" and "env (upper k) = Some s"
    then show "map_of ?c k = Some (JStr s)"
      by (simp add: apply_lookup apply_keys)
  qed
  then show ?thesis
    by (simp add: apply_environment_overrides_def [of env ?c])
qed

section \<open>Properties of the file loader and the validator\<close>

text \<open>The documents that Python takes for false.\<close>

lemma falsy_values:
  "\<not> truthy v \<longleftrightarrow>
     v \<in> {JNull, JBool False, JInt 0, JFloat (Finite 0), JStr [], JArr [], JObj []}"
  by (cases v) auto

lemma load_config_from_file_falsy:
  "fs file_path = Parsed v \<Longrightarrow> \<not> truthy v \<Longrightarrow> load_config_from_file fs file_path = Inr None"
  by (simp add: load_config_from_file_def)

lemma load_config_None:
  "load_config_from_file fs file_path = Inr None \<Longrightarrow>
   load_config fs env file_path env_override =
     Inl (ValueError ''Config is None. Please check the file content.'')"
  by (simp add: load_config_def)

text \<open>On a dict with at least one key, the entry point is the validator's verdict on the
  merged dict, with the validation failure replaced by the fixed message.\<close>

lemma load_config_dict:
  assumes "fs file_path = Parsed (JObj config)" and "config \<noteq> []"
  shows "load_config fs env file_path env_override =
     (case ConfigSchema_init
        (if env_override then apply_environment_overrides env config else config) of
        Inl (ValidationError errs) \<Rightarrow> Inl (ValueError ''Invalid configuration data'')
      | Inl e \<Rightarrow> Inl e
      | Inr validated \<Rightarrow> Inr validated)"
  using assms by (simp add: load_config_def load_config_from_file_def)

lemma ConfigSchema_init_valid:
  assumes "get_field config ''app_name'' validate_str = Inr a"
    and "get_field config ''environment'' validate_str = Inr e"
    and "get_field config ''debug'' validate_bool = Inr d"
    and "get_field config ''db_url'' validate_str = Inr u"
  shows "ConfigSchema_init config =
     Inr \<lparr>app_name = a, environment = e, debug = d, db_url = u\<rparr>"
  using assms by (simp add: ConfigSchema_init_def)


lemma get_field_str:
  "map_of config k = Some (JStr s) \<Longrightarrow> get_field config k validate_str = Inr s"
  by (simp add: get_field_def validate_str_def)

lemma get_field_bool:
  "map_of config k = Some v \<Longrightarrow> validate_bool v = Inr d \<Longrightarrow>
   get_field config k validate_bool = Inr d"
  by (simp add: get_field_def)



lemma validate_bool_text:
  "validate_bool (JStr ''true'') = Inr True" "validate_bool (JStr ''false'') = Inr False"
  by code_simp+

lemma overrides_unset:
  "(\<And>k. k \<in> set (map fst config) \<Longrightarrow> env (upper k) = None) \<Longrightarrow>
   apply_environment_overrides env config = config"
  unfolding apply_environment_overrides_def by (rule override_loop_fixed) simp

lemma only_app_name:
  "ConfigSchema_init [(''app_name'', JStr s)] =
     Inl (ValidationError
       [(''environment'', missing), (''debug'', missing), (''db_url'', missing)])"
  by (simp add: ConfigSchema_init_def get_field_def validate_str_def problems_def)

lemma only_app_name_overridden:
  "\<exists>s. apply_environment_overrides env [(''app_name'', JStr ''x'')] = [(''app_name'', JStr s)]"
  by (simp add: apply_environment_overrides_def split: option.splits)


section \<open>Properties of the entry point\<close>

text \<open>
  C1. A file that parses to a dict with exactly the four fields, the three text fields
  holding strings and \<^verbatim>\<open>debug\<close> a boolean, read while no environment variable named by
  the upper-cased form of one of its keys is set, loads: \<^verbatim>\<open>load_config\<close> returns the
  record of the four values of the file (with overrides enabled, the default, and
  disabled).
\<close>

theorem load_config_round_trip:
  assumes "fs file_path = Parsed (JObj config)"
    and "set (map fst config) = {''app_name'', ''environment'', ''debug'', ''db_url''}"
    and "map_of config ''app_name'' = Some (JStr a)"
    and "map_of config ''environment'' = Some (JStr e)"
    and "map_of config ''debug'' = Some (JBool d)"
    and "map_of config ''db_url'' = Some (JStr u)"
    and "\<forall>k \<in> set (map fst config). env (upper k) = None"
  shows "load_config fs env file_path env_override =
     Inr \<lparr>app_name = a, environment = e, debug = d, db_url = u\<rparr>"
proof -
  from assms(3) have ne: "config \<noteq> []" by auto
  have same: "apply_environment_overrides env config = config"
  proof (rule overrides_unset)
    fix k
    assume "k \<in> set (map fst config)"
    with assms(7) show "env (upper k) = None" by blast
  qed
  have "validate_bool (JBool d) = Inr d"
    by (simp add: validate_bool_def)
  with assms(5) have "get_field config ''debug'' validate_bool = Inr d"
    by (rule get_field_bool)
  with assms(3,4,6) have "ConfigSchema_init config =
      Inr \<lparr>app_name = a, environment = e, debug = d, db_url = u\<rparr>"
    by (intro ConfigSchema_init_valid get_field_str)
  with same show ?thesis
    by (simp add: load_config_dict [of fs file_path config env env_override, OF assms(1) ne])
qed

theorem load_config_round_trip_witness:
  "load_config
     (\<lambda>p. Parsed (JObj [(''app_name'', JStr ''svc''), (''environment'', JStr ''prod''),
        (''debug'', JBool False), (''db_url'', JStr ''postgres://host/db'')]))
     (map_of [(''HOME'', ''/root'')]) ''config.json'' True =
   Inr \<lparr>app_name = ''svc'', environment = ''prod'', debug = False,
     db_url = ''postgres://host/db''\<rparr>"
proof -
  let ?config = "[(''app_name'', JStr ''svc''), (''environment'', JStr ''prod''),
        (''debug'', JBool False), (''db_url'', JStr ''postgres://host/db'')]"
  let ?env = "map_of [(''HOME'', ''/root'')]"
  have h1: "(\<lambda>p. Parsed (JObj ?config)) ''config.json'' = Parsed (JObj ?config)" by simp
  have h2: "set (map fst ?config) = {''app_name'', ''environment'', ''debug'', ''db_url''}"
    by simp
  have h3: "map_of ?config ''app_name'' = Some (JStr ''svc'')" by simp
  have h4: "map_of ?config ''environment'' = Some (JStr ''prod'')" by simp
  have h5: "map_of ?config ''debug'' = Some (JBool False)" by simp
  have h6: "map_of ?config ''db_url'' = Some (JStr ''postgres://host/db'')" by simp
  have h7: "\<forall>k \<in> set (map fst ?config). ?env (upper k) = None"
    by (simp add: upper_keys)
  from load_config_round_trip [of "\<lambda>p. Parsed (JObj ?config)" "''config.json''" ?config
      "''svc''" "''prod''" False "''postgres://host/db''" ?env True, OF h1 h2 h3 h4 h5 h6 h7]
  show ?thesis .
qed




text \<open>
  C3, as stated, at the file \<^verbatim>\<open>{"app_name": "x"}\<close> and the empty environment: the error
  that leaves \<^verbatim>\<open>load_config\<close> is the \<open>ValueError\<close> with the fixed message, not a
  validation error that names the three missing fields.
\<close>

theorem missing_fields_counterexample:
  "load_config (\<lambda>p. Parsed (JObj [(''app_name'', JStr ''x'')])) (map_of []) ''config.json'' True =
     Inl (ValueError ''Invalid configuration data'') \<and>
   load_config (\<lambda>p. Parsed (JObj [(''app_name'', JStr ''x'')])) (map_of []) ''config.json'' True \<noteq>
     Inl (ValidationError
       [(''environment'', missing), (''debug'', missing), (''db_url'', missing)])"
  by code_simp

text \<open>
  C3, amended. For every file that parses to \<^verbatim>\<open>{"app_name": "x"}\<close>, every environment
  and both values of \<^verbatim>\<open>env_override\<close>, \<^verbatim>\<open>load_config\<close> fails with the \<open>ValueError\<close>
  whose message is \<^verbatim>\<open>Invalid configuration data\<close>. The validation failure it replaces
  has exactly three entries, one for each of \<^verbatim>\<open>environment\<close>, \<^verbatim>\<open>debug\<close> and \<^verbatim>\<open>db_url\<close>,
  each saying that the field is missing.
\<close>

theorem missing_fields_generic_error:
  assumes "fs file_path = Parsed (JObj [(''app_name'', JStr ''x'')])"
  shows "load_config fs env file_path env_override =
       Inl (ValueError ''Invalid configuration data'') \<and>
     ConfigSchema_init
       (if env_override then apply_environment_overrides env [(''app_name'', JStr ''x'')]
        else [(''app_name'', JStr ''x'')]) =
       Inl (ValidationError
         [(''environment'', missing), (''debug'', missing), (''db_url'', missing)])"
proof -
  let ?file = "[(''app_name'', JStr ''x'')]"
  let ?config = "if env_override then apply_environment_overrides env ?file else ?file"
  obtain s where "apply_environment_overrides env ?file = [(''app_name'', JStr s)]"
    using only_app_name_overridden by blast
  then have "\<exists>s. ?config = [(''app_name'', JStr s)]"
    by (cases env_override) simp_all
  then obtain s' where "?config = [(''app_name'', JStr s')]" ..
  then have v: "ConfigSchema_init ?config = Inl (ValidationError
         [(''environment'', missing), (''debug'', missing), (''db_url'', missing)])"
    by (simp only: only_app_name)
  have ne: "?file \<noteq> []" by simp
  have "load_config fs env file_path env_override =
       Inl (ValueError ''Invalid configuration data'')"
    by (simp only: load_config_dict [of fs file_path ?file env env_override, OF assms ne] v
        sum.case error.case)
  then show ?thesis using v by (rule conjI)
qed

theorem missing_fields_generic_error_witness:
  "(\<lambda>p. Parsed (JObj [(''app_name'', JStr ''x'')])) ''config.json'' =
     Parsed (JObj [(''app_name'', JStr ''x'')]) \<and>
   load_config (\<lambda>p. Parsed (JObj [(''app_name'', JStr ''x'')]))
     (map_of [(''APP_NAME'', ''foo'')]) ''config.json'' True =
     Inl (ValueError ''Invalid configuration data'') \<and>
   ConfigSchema_init
     (apply_environment_overrides (map_of [(''APP_NAME'', ''foo'')]) [(''app_name'', JStr ''x'')]) =
     Inl (ValidationError
       [(''environment'', missing), (''debug'', missing), (''db_url'', missing)])"
proof -
  have h: "(\<lambda>p. Parsed (JObj [(''app_name'', JStr ''x'')])) ''config.json'' =
     Parsed (JObj [(''app_name'', JStr ''x'')])" by simp
  from missing_fields_generic_error [of "\<lambda>p. Parsed (JObj [(''app_name'', JStr ''x'')])"
      "''config.json''" "map_of [(''APP_NAME'', ''foo'')]" True, OF h]
  show ?thesis by simp
qed

text \<open>
  C4. For every path whose file parses to the empty object and for both values of
  \<^verbatim>\<open>env_override\<close>, \<^verbatim>\<open>load_config\<close> fails, with the \<open>ValueError\<close> whose message is
  \<^verbatim>\<open>Config is None. Please check the file content.\<close>: an error that is neither the one
  of a missing file nor the one of malformed JSON, and never a validated record.
\<close>

theorem empty_object_rejected:
  assumes "fs file_path = Parsed (JObj [])"
  shows "load_config fs env file_path env_override =
       Inl (ValueError ''Config is None. Please check the file content.'') \<and>
     load_config fs env file_path env_override \<noteq> Inl FileNotFoundError \<and>
     load_config fs env file_path env_override \<noteq> Inl JSONDecodeError \<and>
     isl (load_config fs env file_path env_override)"
proof -
  from assms have "load_config_from_file fs file_path = Inr None"
    by (simp add: load_config_from_file_falsy)
  then have "load_config fs env file_path env_override =
       Inl (ValueError ''Config is None. Please check the file content.'')"
    by (rule load_config_None)
  then show ?thesis by simp
qed

theorem empty_object_rejected_witness:
  "(\<lambda>p. Parsed (JObj [])) ''config.json'' = Parsed (JObj []) \<and>
   load_config (\<lambda>p. Parsed (JObj [])) (map_of [(''APP_NAME'', ''foo'')]) ''config.json'' True =
     Inl (ValueError ''Config is None. Please check the file content.'') \<and>
   load_config (\<lambda>p. Parsed (JObj [])) (map_of [(''APP_NAME'', ''foo'')]) ''config.json'' False =
     Inl (ValueError ''Config is None. Please check the file content.'')"
proof -
  have h: "(\<lambda>p. Parsed (JObj [])) ''config.json'' = Parsed (JObj [])" by simp
  from empty_object_rejected [of "\<lambda>p. Parsed (JObj [])" "''config.json''"
      "map_of [(''APP_NAME'', ''foo'')]" True, OF h]
    empty_object_rejected [of "\<lambda>p. Parsed (JObj [])" "''config.json''"
      "map_of [(''APP_NAME'', ''foo'')]" False, OF h]
  show ?thesis by simp
qed



text \<open>
  C8. For the \<^verbatim>\<open>debug\<close> field the validator accepts a literal boolean, which it returns,
  and the texts \<^verbatim>\<open>true\<close> and \<^verbatim>\<open>false\<close> that an environment override produces, which it
  turns into the booleans true and false of the returned record.
\<close>

theorem debug_coercion:
  assumes "map_of config ''app_name'' = Some (JStr a)"
    and "map_of config ''environment'' = Some (JStr e)"
    and "map_of config ''db_url'' = Some (JStr u)"
    and "map_of config ''debug'' = Some dv"
    and "dv = JBool d \<or> (dv = JStr ''true'' \<and> d = True) \<or> (dv = JStr ''false'' \<and> d = False)"
  shows "validate_bool dv = Inr d \<and>
     ConfigSchema_init config = Inr \<lparr>app_name = a, environment = e, debug = d, db_url = u\<rparr>"
proof -
  have "validate_bool (JBool d) = Inr d" by (simp add: validate_bool_def)
  with assms(5) have v: "validate_bool dv = Inr d"
    by (auto simp: validate_bool_text)
  with assms(4) have "get_field config ''debug'' validate_bool = Inr d"
    by (rule get_field_bool)
  with assms(1,2,3) have "ConfigSchema_init config =
      Inr \<lparr>app_name = a, environment = e, debug = d, db_url = u\<rparr>"
    by (intro ConfigSchema_init_valid get_field_str)
  with v show ?thesis by (rule conjI)
qed

theorem debug_coercion_witness:
  "validate_bool (JStr ''true'') = Inr True \<and>
   ConfigSchema_init [(''app_name'', JStr ''svc''), (''environment'', JStr ''prod''),
      (''debug'', JStr ''true''), (''db_url'', JStr ''db'')] =
     Inr \<lparr>app_name = ''svc'', environment = ''prod'', debug = True, db_url = ''db''\<rparr> \<and>
   validate_bool (JStr ''false'') = Inr False \<and>
   ConfigSchema_init [(''app_name'', JStr ''svc''), (''environment'', JStr ''prod''),
      (''debug'', JStr ''false''), (''db_url'', JStr ''db'')] =
     Inr \<lparr>app_name = ''svc'', environment = ''prod'', debug = False, db_url = ''db''\<rparr> \<and>
   validate_bool (JBool True) = Inr True \<and>
   ConfigSchema_init [(''app_name'', JStr ''svc''), (''environment'', JStr ''prod''),
      (''debug'', JBool True), (''db_url'', JStr ''db'')] =
     Inr \<lparr>app_name = ''svc'', environment = ''prod'', debug = True, db_url = ''db''\<rparr>"
proof -
  have t: "validate_bool (JStr ''true'') = Inr True \<and>
   ConfigSchema_init [(''app_name'', JStr ''svc''), (''environment'', JStr ''prod''),
      (''debug'', JStr ''true''), (''db_url'', JStr ''db'')] =
     Inr \<lparr>app_name = ''svc'', environment = ''prod'', debug = True, db_url = ''db''\<rparr>"
    by (rule debug_coercion) simp_all
  have f: "validate_bool (JStr ''false'') = Inr False \<and>
   ConfigSchema_init [(''app_name'', JStr ''svc''), (''environment'', JStr ''prod''),
      (''debug'', JStr ''false''), (''db_url'', JStr ''db'')] =
     Inr \<lparr>app_name = ''svc'', environment = ''prod'', debug = False, db_url = ''db''\<rparr>"
    by (rule debug_coercion) simp_all
  have b: "validate_bool (JBool True) = Inr True \<and>
   ConfigSchema_init [(''app_name'', JStr ''svc''), (''environment'', JStr ''prod''),
      (''debug'', JBool True), (''db_url'', JStr ''db'')] =
     Inr \<lparr>app_name = ''svc'', environment = ''prod'', debug = True, db_url = ''db''\<rparr>"
    by (rule debug_coercion) simp_all
  from t f b show ?thesis by simp
qed

text \<open>
  C10. For every file whose document is false in Python's sense (\<^verbatim>\<open>null\<close>, \<^verbatim>\<open>false\<close>,
  the numbers \<^verbatim>\<open>0\<close> and \<^verbatim>\<open>0.0\<close>, the empty string, the empty array, the empty object) and
  for both values of \<^verbatim>\<open>env_override\<close>, the file loader returns \<^verbatim>\<open>None\<close> and
  \<^verbatim>\<open>load_config\<close> raises one and the same \<open>ValueError\<close>, with the message
  \<^verbatim>\<open>Config is None. Please check the file content.\<close>, whatever the type of the document.
\<close>

theorem falsy_document_rejected:
  assumes "fs file_path = Parsed v"
    and "v \<in> {JNull, JBool False, JInt 0, JFloat (Finite 0), JStr [], JArr [], JObj []}"
  shows "load_config_from_file fs file_path = Inr None \<and>
     load_config fs env file_path env_override =
       Inl (ValueError ''Config is None. Please check the file content.'')"
proof -
  from assms(2) have "\<not> truthy v" by (simp only: falsy_values)
  with assms(1) have "load_config_from_file fs file_path = Inr None"
    by (rule load_config_from_file_falsy)
  then show ?thesis by (simp add: load_config_None)
qed

theorem falsy_document_rejected_witness:
  "(\<lambda>p. Parsed (JArr [])) ''config.json'' = Parsed (JArr []) \<and>
   JArr [] \<in> {JNull, JBool False, JInt 0, JFloat (Finite 0), JStr [], JArr [], JObj []} \<and>
   load_config_from_file (\<lambda>p. Parsed (JArr [])) ''config.json'' = Inr None \<and>
   load_config (\<lambda>p. Parsed (JArr [])) (map_of [(''DEBUG'', ''true'')]) ''config.json'' True =
     Inl (ValueError ''Config is None. Please check the file content.'') \<and>
   load_config (\<lambda>p. Parsed (JArr [])) (map_of [(''DEBUG'', ''true'')]) ''config.json'' False =
     Inl (ValueError ''Config is None. Please check the file content.'')"
proof -
  have h1: "(\<lambda>p. Parsed (JArr [])) ''config.json'' = Parsed (JArr [])" by simp
  have h2: "JArr [] \<in> {JNull, JBool False, JInt 0, JFloat (Finite 0), JStr [], JArr [], JObj []}"
    by simp
  from falsy_document_rejected [of "\<lambda>p. Parsed (JArr [])" "''config.json''" "JArr []"
      "map_of [(''DEBUG'', ''true'')]" True, OF h1 h2]
    falsy_document_rejected [of "\<lambda>p. Parsed (JArr [])" "''config.json''" "JArr []"
      "map_of [(''DEBUG'', ''true'')]" False, OF h1 h2] h2
  show ?thesis by simp
qed

end
